theory Spec2Isabelle
  imports Complex_Main
begin

section \<open>Data model\<close>

text \<open>
  A float that the archive or pandas hands over is a number or NaN, the mark of a missing
  value. Infinities do not occur in the weather data and are left out.
\<close>

datatype pyfloat = Num real | NaN

text \<open>
  The fourteen fields shared by the \<open>WeatherMetrics\<close> object, the \<open>WeatherData\<close> row and the
  \<open>weather_dict\<close> of \<open>run_weather_analysis\<close>; month, day and year are Python ints. The
  nine statistics have the type \<open>'v\<close>: \<open>pyfloat\<close> where they are computed and stored, since
  a statistic can be NaN, and \<open>real\<close> in the two scoring functions, which are stated for
  summaries of numbers.
\<close>

record 'v weather_summary =
  latitude :: real
  longitude :: real
  month :: int
  day :: int
  year :: int
  avg_temp :: 'v
  min_temp :: 'v
  max_temp :: 'v
  avg_wind :: 'v
  min_wind :: 'v
  max_wind :: 'v
  sum_precip :: 'v
  min_precip :: 'v
  max_precip :: 'v

text \<open>The dictionary returned by \<open>calculate_weather_risk\<close>, with its two keys.\<close>

record risk_assessment =
  level :: string
  description :: string

section \<open>Risk level (app.py, calculate_weather_risk)\<close>

text \<open>
  The function keeps a counter \<open>risk_factors\<close>, starting at 0, and passes it through three
  \<open>if/elif\<close> blocks; each block is a function from the counter to the counter.
\<close>

definition temp_risk :: "real \<Rightarrow> int \<Rightarrow> int" where
  "temp_risk t rf = (if t > 90 then rf + 2 else if t > 85 then rf + 1 else rf)"

definition wind_risk :: "real \<Rightarrow> int \<Rightarrow> int" where
  "wind_risk v rf = (if v > 25 then rf + 2 else if v > 15 then rf + 1 else rf)"

definition precip_risk :: "real \<Rightarrow> int \<Rightarrow> int" where
  "precip_risk p rf = (if p > 1.0 then rf + 2 else if p > 0.5 then rf + 1 else rf)"

definition risk_factors :: "real weather_summary \<Rightarrow> int" where
  "risk_factors w =
     precip_risk (sum_precip w) (wind_risk (max_wind w) (temp_risk (max_temp w) 0))"

definition calculate_weather_risk :: "real weather_summary \<Rightarrow> risk_assessment" where
  "calculate_weather_risk w =
     (let rf = risk_factors w in
      if rf \<ge> 4 then \<lparr>level = ''High'', description = ''Consider indoor alternatives''\<rparr>
      else if rf \<ge> 2 then \<lparr>level = ''Medium'', description = ''Have backup plans ready''\<rparr>
      else \<lparr>level = ''Low'', description = ''Good conditions expected''\<rparr>)"

section \<open>Suitability score (utils.py, calculate_weather_suitability_score)\<close>

text \<open>The score starts at 100 and is lowered by three \<open>if/elif\<close> blocks in turn.\<close>

definition temp_scoring :: "real \<Rightarrow> int \<Rightarrow> int" where
  "temp_scoring t score =
     (if t < 60 \<or> t > 90 then score - 30
      else if t < 70 \<or> t > 80 then score - 15
      else score)"

definition wind_scoring :: "real \<Rightarrow> int \<Rightarrow> int" where
  "wind_scoring v score =
     (if v > 25 then score - 25
      else if v > 15 then score - 15
      else if v > 10 then score - 10
      else score)"

definition precip_scoring :: "real \<Rightarrow> int \<Rightarrow> int" where
  "precip_scoring p score =
     (if p > 1.0 then score - 20
      else if p > 0.5 then score - 10
      else if p > 0.1 then score - 5
      else score)"

text \<open>The value of \<open>score\<close> just before \<open>return max(0, score)\<close>.\<close>

definition score_before_clamp :: "real weather_summary \<Rightarrow> int" where
  "score_before_clamp w =
     precip_scoring (sum_precip w) (wind_scoring (max_wind w) (temp_scoring (avg_temp w) 100))"

definition calculate_weather_suitability_score :: "real weather_summary \<Rightarrow> int" where
  "calculate_weather_suitability_score w = max 0 (score_before_clamp w)"

text \<open>The three deductions as the specification words them.\<close>

definition tempDeduction :: "real \<Rightarrow> int" where
  "tempDeduction t = (if t < 60 \<or> t > 90 then 30 else if t < 70 \<or> t > 80 then 15 else 0)"

definition windDeduction :: "real \<Rightarrow> int" where
  "windDeduction v = (if v > 25 then 25 else if v > 15 then 15 else if v > 10 then 10 else 0)"

definition precipDeduction :: "real \<Rightarrow> int" where
  "precipDeduction p = (if p > 1.0 then 20 else if p > 0.5 then 10 else if p > 0.1 then 5 else 0)"

section \<open>Errors\<close>

text \<open>
  The exceptions that occur in the modelled code. \<open>UpstreamError\<close> stands for whatever the
  Open-Meteo client raises once its retries are used up, \<open>DatabaseError\<close> for what the
  SQLAlchemy session raises; both carry their message.
\<close>

datatype py_error =
    ValueError
  | IndexError
  | TypeError
  | AttributeError string
  | UpstreamError string
  | DatabaseError string

section \<open>Date validation (utils.py, validate_date)\<close>


text \<open>\<open>calendar.isleap\<close> of the standard library: \<open>year % 4 == 0 and (year % 100 != 0 or year % 400 == 0)\<close>.\<close>

definition isleap :: "int \<Rightarrow> bool" where
  "isleap y = (y mod 4 = 0 \<and> (y mod 100 \<noteq> 0 \<or> y mod 400 = 0))"










section \<open>Dates\<close>

text \<open>A \<open>datetime\<close> (or \<open>date\<close>) object, by its three calendar fields.\<close>

record pydate =
  dyear :: int
  dmonth :: int
  dday :: int

text \<open>
  The constructor \<open>datetime(year, month, day)\<close> of the standard library raises ValueError
  unless 1 \<le> year \<le> 9999, 1 \<le> month \<le> 12 and 1 \<le> day \<le> days in that month.
\<close>

definition days_in_month :: "int \<Rightarrow> int \<Rightarrow> int" where
  "days_in_month y m =
     (if m = 2 \<and> isleap y then 29
      else [31, 28, 31, 30, 31, 30, 31, 31, 30, 31, 30, 31] ! nat (m - 1))"

definition datetime :: "int \<Rightarrow> int \<Rightarrow> int \<Rightarrow> py_error + pydate" where
  "datetime y m d =
     (if \<not> (1 \<le> y \<and> y \<le> 9999) then Inl ValueError
      else if \<not> (1 \<le> m \<and> m \<le> 12) then Inl ValueError
      else if \<not> (1 \<le> d \<and> d \<le> days_in_month y m) then Inl ValueError
      else Inr \<lparr>dyear = y, dmonth = m, dday = d\<rparr>)"

section \<open>The fetcher (weather_metrics.py, call_api)\<close>

text \<open>
  The query parameters of the GET request. The two dates are sent as \<open>%Y-%m-%d\<close> strings;
  the model keeps the date they are formatted from.
\<close>

record api_request =
  rq_latitude :: real
  rq_longitude :: real
  start_date :: pydate
  end_date :: pydate
  daily :: "string list"
  temperature_unit :: string
  wind_speed_unit :: string
  precipitation_unit :: string

text \<open>
  One response of the archive: the days that \<open>pd.date_range\<close> derives from \<open>Time()\<close>,
  \<open>TimeEnd()\<close> and \<open>Interval()\<close>, and the value arrays \<open>Variables(0)\<close> to \<open>Variables(5)\<close>
  of the six daily variables requested, in the order requested.
\<close>

record api_response =
  daily_dates :: "pydate list"
  variables0 :: "pyfloat list"
  variables1 :: "pyfloat list"
  variables2 :: "pyfloat list"
  variables3 :: "pyfloat list"
  variables4 :: "pyfloat list"
  variables5 :: "pyfloat list"

text \<open>
  The columns of \<open>daily_data\<close>, of \<open>chosen_date_data\<close> and of the data frame built from it.
\<close>

record daily_data =
  date :: "pydate list"
  temperature_2m_max :: "pyfloat list"
  temperature_2m_min :: "pyfloat list"
  temperature_2m_mean :: "pyfloat list"
  precipitation_sum :: "pyfloat list"
  wind_speed_10m_max :: "pyfloat list"
  wind_gusts_10m_max :: "pyfloat list"

text \<open>
  The archive behind the cached, retrying client is a parameter \<open>openmeteo\<close>: it maps the
  request to the list of responses, or to the exception the client raises.
  \<open>responses[0]\<close> raises IndexError on an empty list. Nothing in \<open>call_api\<close> looks at the
  number of days in the response.
\<close>

definition params :: "real \<Rightarrow> real \<Rightarrow> pydate \<Rightarrow> pydate \<Rightarrow> api_request" where
  "params lat lon start end =
     \<lparr>rq_latitude = lat, rq_longitude = lon, start_date = start, end_date = end,
      daily = [''temperature_2m_max'', ''temperature_2m_min'', ''temperature_2m_mean'',
               ''precipitation_sum'', ''wind_speed_10m_max'', ''wind_gusts_10m_max''],
      temperature_unit = ''fahrenheit'', wind_speed_unit = ''mph'',
      precipitation_unit = ''inch''\<rparr>"

text \<open>The dictionary \<open>daily_data\<close> built from a response, column by column.\<close>

definition daily_data_of :: "api_response \<Rightarrow> daily_data" where
  "daily_data_of response =
     \<lparr>date = daily_dates response,
      temperature_2m_max = variables0 response,
      temperature_2m_min = variables1 response,
      temperature_2m_mean = variables2 response,
      precipitation_sum = variables3 response,
      wind_speed_10m_max = variables4 response,
      wind_gusts_10m_max = variables5 response\<rparr>"

definition call_api ::
  "(api_request \<Rightarrow> py_error + api_response list) \<Rightarrow> real \<Rightarrow> real \<Rightarrow> pydate \<Rightarrow> pydate
     \<Rightarrow> py_error + daily_data" where
  "call_api openmeteo lat lon start end =
     (case openmeteo (params lat lon start end) of
        Inl e \<Rightarrow> Inl e
      | Inr responses \<Rightarrow>
         (case responses of
            [] \<Rightarrow> Inl IndexError
          | response # _ \<Rightarrow> Inr (daily_data_of response)))"

section \<open>The five-year loop (weather_metrics.py, get_data_for_date)\<close>

text \<open>Indexing with \<open>[0]\<close> raises IndexError on an empty sequence.\<close>

fun first :: "'a list \<Rightarrow> py_error + 'a" where
  "first [] = Inl IndexError"
| "first (v # rest) = Inr v"

definition chosen_date_data_init :: daily_data where
  "chosen_date_data_init =
     \<lparr>date = [], temperature_2m_max = [], temperature_2m_min = [], temperature_2m_mean = [],
      precipitation_sum = [], wind_speed_10m_max = [], wind_gusts_10m_max = []\<rparr>"

text \<open>
  The first three lines of the loop body: the date of year \<open>now - i\<close> and the single-day
  request for it. \<open>now\<close> is \<open>datetime.now().year\<close>.
\<close>

definition fetch_year ::
  "(api_request \<Rightarrow> py_error + api_response list) \<Rightarrow> real \<Rightarrow> real \<Rightarrow> int \<Rightarrow> int \<Rightarrow> int \<Rightarrow> int
     \<Rightarrow> py_error + daily_data" where
  "fetch_year openmeteo lat lon now m d i =
     (case datetime (now - i) m d of
        Inl e \<Rightarrow> Inl e
      | Inr start \<Rightarrow> call_api openmeteo lat lon start start)"

text \<open>The seven appends of the loop body, each reading element 0 of a column.\<close>

definition append_first :: "daily_data \<Rightarrow> daily_data \<Rightarrow> py_error + daily_data" where
  "append_first acc r =
     (case first (date r) of Inl e \<Rightarrow> Inl e | Inr v_date \<Rightarrow>
     (case first (temperature_2m_max r) of Inl e \<Rightarrow> Inl e | Inr v_max \<Rightarrow>
     (case first (temperature_2m_min r) of Inl e \<Rightarrow> Inl e | Inr v_min \<Rightarrow>
     (case first (temperature_2m_mean r) of Inl e \<Rightarrow> Inl e | Inr v_mean \<Rightarrow>
     (case first (precipitation_sum r) of Inl e \<Rightarrow> Inl e | Inr v_precip \<Rightarrow>
     (case first (wind_speed_10m_max r) of Inl e \<Rightarrow> Inl e | Inr v_wind \<Rightarrow>
     (case first (wind_gusts_10m_max r) of Inl e \<Rightarrow> Inl e | Inr v_gust \<Rightarrow>
        Inr \<lparr>date = date acc @ [v_date],
             temperature_2m_max = temperature_2m_max acc @ [v_max],
             temperature_2m_min = temperature_2m_min acc @ [v_min],
             temperature_2m_mean = temperature_2m_mean acc @ [v_mean],
             precipitation_sum = precipitation_sum acc @ [v_precip],
             wind_speed_10m_max = wind_speed_10m_max acc @ [v_wind],
             wind_gusts_10m_max = wind_gusts_10m_max acc @ [v_gust]\<rparr>)))))))"

text \<open>The loop \<open>for i in range(1, 6)\<close>, over the values of \<open>i\<close> still to come.\<close>

fun year_loop ::
  "(api_request \<Rightarrow> py_error + api_response list) \<Rightarrow> real \<Rightarrow> real \<Rightarrow> int \<Rightarrow> int \<Rightarrow> int
     \<Rightarrow> int list \<Rightarrow> daily_data \<Rightarrow> py_error + daily_data" where
  "year_loop openmeteo lat lon now m d [] acc = Inr acc"
| "year_loop openmeteo lat lon now m d (i # rest) acc =
     (case fetch_year openmeteo lat lon now m d i of
        Inl e \<Rightarrow> Inl e
      | Inr data_for_that_year \<Rightarrow>
         (case append_first acc data_for_that_year of
            Inl e \<Rightarrow> Inl e
          | Inr acc' \<Rightarrow> year_loop openmeteo lat lon now m d rest acc'))"

definition get_data_for_date ::
  "(api_request \<Rightarrow> py_error + api_response list) \<Rightarrow> real \<Rightarrow> real \<Rightarrow> int \<Rightarrow> int \<Rightarrow> int
     \<Rightarrow> py_error + daily_data" where
  "get_data_for_date openmeteo lat lon now m d =
     year_loop openmeteo lat lon now m d [1, 2, 3, 4, 5] chosen_date_data_init"

section \<open>The statistics (weather_metrics.py, fill_out_class)\<close>

text \<open>
  The reductions \<open>mean()\<close>, \<open>min()\<close>, \<open>max()\<close> and \<open>sum()\<close> of a pandas column are
  called without arguments, so they skip the missing values (\<open>skipna=True\<close>): they work
  on the values of the column that are not NaN.
\<close>

fun present :: "pyfloat list \<Rightarrow> real list" where
  "present [] = []"
| "present (Num v # xs) = v # present xs"
| "present (NaN # xs) = present xs"

text \<open>
  The columns hold float32 values and pandas computes in float32. The rounding of a real
  to float32 is a parameter \<open>rnd\<close>. A sum adds the values in order, each addition
  rounded; a mean divides that sum by the number of values added and rounds again. Without
  values the sum is 0 and the mean is NaN. (pandas puts 0 in place of a missing value
  before adding, which adds nothing.)
\<close>

definition float_sum :: "(real \<Rightarrow> real) \<Rightarrow> real list \<Rightarrow> real" where
  "float_sum rnd vs = foldl (\<lambda>acc v. rnd (acc + v)) 0 vs"

definition float_mean :: "(real \<Rightarrow> real) \<Rightarrow> real list \<Rightarrow> pyfloat" where
  "float_mean rnd vs =
     (if vs = [] then NaN else Num (rnd (float_sum rnd vs / real (length vs))))"

definition series_mean :: "(real \<Rightarrow> real) \<Rightarrow> pyfloat list \<Rightarrow> pyfloat" where
  "series_mean rnd xs = float_mean rnd (present xs)"

definition series_sum :: "(real \<Rightarrow> real) \<Rightarrow> pyfloat list \<Rightarrow> pyfloat" where
  "series_sum rnd xs = Num (float_sum rnd (present xs))"

text \<open>
  Minimum and maximum pick one of the values and need no rounding; without values they
  are NaN.
\<close>

definition series_min :: "pyfloat list \<Rightarrow> pyfloat" where
  "series_min xs = (case present xs of [] \<Rightarrow> NaN | v # vs \<Rightarrow> Num (Min (set (v # vs))))"

definition series_max :: "pyfloat list \<Rightarrow> pyfloat" where
  "series_max xs = (case present xs of [] \<Rightarrow> NaN | v # vs \<Rightarrow> Num (Max (set (v # vs))))"

definition calc_avg_temp :: "(real \<Rightarrow> real) \<Rightarrow> daily_data \<Rightarrow> pyfloat" where
  "calc_avg_temp rnd data = series_mean rnd (temperature_2m_mean data)"

definition calc_wind_speed_max :: "daily_data \<Rightarrow> pyfloat" where
  "calc_wind_speed_max data = series_max (wind_speed_10m_max data)"

definition calc_total_precip :: "(real \<Rightarrow> real) \<Rightarrow> daily_data \<Rightarrow> pyfloat" where
  "calc_total_precip rnd data = series_sum rnd (precipitation_sum data)"

text \<open>The nine assignments of \<open>fill_out_class\<close>, on the frame it was given.\<close>

definition assign_statistics ::
  "(real \<Rightarrow> real) \<Rightarrow> pyfloat weather_summary \<Rightarrow> daily_data \<Rightarrow> pyfloat weather_summary" where
  "assign_statistics rnd self chosen_date_data =
     self\<lparr>avg_temp := calc_avg_temp rnd chosen_date_data,
          min_temp := series_min (temperature_2m_min chosen_date_data),
          max_temp := series_max (temperature_2m_max chosen_date_data),
          avg_wind := series_mean rnd (wind_speed_10m_max chosen_date_data),
          min_wind := series_min (wind_speed_10m_max chosen_date_data),
          max_wind := calc_wind_speed_max chosen_date_data,
          sum_precip := calc_total_precip rnd chosen_date_data,
          min_precip := series_min (precipitation_sum chosen_date_data),
          max_precip := series_max (precipitation_sum chosen_date_data)\<rparr>"

definition fill_out_class ::
  "(real \<Rightarrow> real) \<Rightarrow> (api_request \<Rightarrow> py_error + api_response list) \<Rightarrow> int
     \<Rightarrow> pyfloat weather_summary \<Rightarrow> py_error + pyfloat weather_summary" where
  "fill_out_class rnd openmeteo now self =
     (case get_data_for_date openmeteo (latitude self) (longitude self) now
             (month self) (day self) of
        Inl e \<Rightarrow> Inl e
      | Inr chosen_date_data \<Rightarrow> Inr (assign_statistics rnd self chosen_date_data))"

text \<open>The constructor: the fields are set, the statistics start at 0 and are then filled.\<close>

definition new_metrics :: "real \<Rightarrow> real \<Rightarrow> int \<Rightarrow> int \<Rightarrow> int \<Rightarrow> pyfloat weather_summary" where
  "new_metrics lat lon m d y =
     \<lparr>latitude = lat, longitude = lon, month = m, day = d, year = y,
      avg_temp = Num 0, min_temp = Num 0, max_temp = Num 0,
      avg_wind = Num 0, min_wind = Num 0, max_wind = Num 0,
      sum_precip = Num 0, min_precip = Num 0, max_precip = Num 0\<rparr>"

definition WeatherMetrics ::
  "(real \<Rightarrow> real) \<Rightarrow> (api_request \<Rightarrow> py_error + api_response list) \<Rightarrow> int
     \<Rightarrow> real \<Rightarrow> real \<Rightarrow> int \<Rightarrow> int \<Rightarrow> int \<Rightarrow> py_error + pyfloat weather_summary" where
  "WeatherMetrics rnd openmeteo now lat lon m d y =
     fill_out_class rnd openmeteo now (new_metrics lat lon m d y)"

text \<open>
  Arithmetic without rounding: what float32 arithmetic does on values whose sums and
  quotients are float32 numbers themselves, such as the small integers and quarters of the
  sample frames below.
\<close>

definition no_rounding :: "real \<Rightarrow> real" where
  "no_rounding x = x"

text \<open>
  The words of the specification. A statistic is the least (greatest) of some values when
  it is one of them and a bound of all; of no values it is NaN.
\<close>

definition least_of :: "pyfloat \<Rightarrow> real list \<Rightarrow> bool" where
  "least_of r vs =
     (if vs = [] then r = NaN else (\<exists>v \<in> set vs. r = Num v \<and> (\<forall>x \<in> set vs. v \<le> x)))"

definition greatest_of :: "pyfloat \<Rightarrow> real list \<Rightarrow> bool" where
  "greatest_of r vs =
     (if vs = [] then r = NaN else (\<exists>v \<in> set vs. r = Num v \<and> (\<forall>x \<in> set vs. x \<le> v)))"

text \<open>
  The mean and the sum of all the values of a column, as floating-point arithmetic
  defines them: NaN as soon as one of the values is NaN.
\<close>

definition mean_of_all :: "pyfloat list \<Rightarrow> pyfloat" where
  "mean_of_all xs =
     (if NaN \<in> set xs then NaN else Num (sum_list (present xs) / real (length xs)))"

definition sum_of_all :: "pyfloat list \<Rightarrow> pyfloat" where
  "sum_of_all xs = (if NaN \<in> set xs then NaN else Num (sum_list (present xs)))"

text \<open>A frame with five rows: every column holds five values.\<close>

definition five_rows :: "daily_data \<Rightarrow> bool" where
  "five_rows df =
     (length (date df) = 5 \<and> length (temperature_2m_max df) = 5
      \<and> length (temperature_2m_min df) = 5 \<and> length (temperature_2m_mean df) = 5
      \<and> length (precipitation_sum df) = 5 \<and> length (wind_speed_10m_max df) = 5
      \<and> length (wind_gusts_10m_max df) = 5)"

text \<open>A response of the fetcher that holds a first day in every column.\<close>

definition has_first_day :: "daily_data \<Rightarrow> bool" where
  "has_first_day r =
     (date r \<noteq> [] \<and> temperature_2m_max r \<noteq> [] \<and> temperature_2m_min r \<noteq> []
      \<and> temperature_2m_mean r \<noteq> [] \<and> precipitation_sum r \<noteq> []
      \<and> wind_speed_10m_max r \<noteq> [] \<and> wind_gusts_10m_max r \<noteq> [])"



section \<open>The record store (weather_sql.py, DatabaseHandler)\<close>

text \<open>
  A session holds the objects added to it until they are committed. The table
  \<open>weather_data\<close> is the list of its rows, in insertion order (the auto-incremented id of a
  row is its position).
\<close>

record 'v db_session =
  pending :: "'v weather_summary list"
  rolled_back :: bool
  closed :: bool

definition new_session :: "'v db_session" where
  "new_session = \<lparr>pending = [], rolled_back = False, closed = False\<rparr>"

definition session_add :: "'v weather_summary \<Rightarrow> 'v db_session \<Rightarrow> 'v db_session" where
  "session_add data s = s\<lparr>pending := pending s @ [data]\<rparr>"

text \<open>
  Whether the commit goes through is decided by the database, a parameter: \<open>None\<close> when it
  does, the exception otherwise. A commit that goes through appends the pending rows; one
  that raises has written nothing that outlasts the transaction.
\<close>

definition session_commit ::
  "py_error option \<Rightarrow> 'v weather_summary list \<Rightarrow> 'v db_session
     \<Rightarrow> py_error + 'v weather_summary list \<times> 'v db_session" where
  "session_commit failure table s =
     (case failure of
        Some e \<Rightarrow> Inl e
      | None \<Rightarrow> Inr (table @ pending s, s\<lparr>pending := []\<rparr>))"

definition session_rollback :: "'v db_session \<Rightarrow> 'v db_session" where
  "session_rollback s = s\<lparr>pending := [], rolled_back := True\<rparr>"

definition session_close :: "'v db_session \<Rightarrow> 'v db_session" where
  "session_close s = s\<lparr>closed := True\<rparr>"

text \<open>
  \<open>insert_data\<close>: the result is what the caller sees (the exception raised, or a normal
  return), the table afterwards and the session as the \<open>finally\<close> block leaves it.
\<close>

definition insert_data ::
  "py_error option \<Rightarrow> 'v weather_summary list \<Rightarrow> 'v weather_summary
     \<Rightarrow> (py_error + unit) \<times> 'v weather_summary list \<times> 'v db_session" where
  "insert_data failure table data =
     (let session = session_add data new_session in
      case session_commit failure table session of
        Inl e \<Rightarrow> (Inl e, table, session_close (session_rollback session))
      | Inr (table', session') \<Rightarrow> (Inr (), table', session_close session'))"

text \<open>
  What \<open>fetch\<close> and \<open>get_all_records\<close> print: the twelve formatted lines of a record, the
  no-data line, or an error line with the text of the exception.
\<close>

datatype 'v printed =
    PrintedRecord "'v weather_summary"
  | PrintedNoData
  | PrintedFetchError string
  | PrintedAllRecordsError string

text \<open>
  A query either raises (the parameter gives the text of the exception) or runs on the
  table. \<open>fetch\<close> returns the first row of the given date, or \<open>None\<close>.
\<close>

definition fetch ::
  "string option \<Rightarrow> 'v weather_summary list \<Rightarrow> int \<Rightarrow> int \<Rightarrow> int
     \<Rightarrow> 'v printed list \<times> 'v weather_summary option" where
  "fetch failure table m d y =
     (case failure of
        Some msg \<Rightarrow> ([PrintedFetchError msg], None)
      | None \<Rightarrow>
         (case filter (\<lambda>w. month w = m \<and> day w = d \<and> year w = y) table of
            weather # _ \<Rightarrow> ([PrintedRecord weather], Some weather)
          | [] \<Rightarrow> ([PrintedNoData], None)))"

definition get_all_records ::
  "string option \<Rightarrow> 'v weather_summary list \<Rightarrow> 'v printed list \<times> 'v weather_summary list" where
  "get_all_records failure table =
     (case failure of
        Some msg \<Rightarrow> ([PrintedAllRecordsError msg], [])
      | None \<Rightarrow> ([], table))"

section \<open>CSV export (utils.py, format_weather_data)\<close>

text \<open>
  The object passed in carries its attributes by name; reading a missing one raises
  AttributeError. A value is an int (month, day, year) or a float.
\<close>

datatype cell = IntCell int | FloatCell real

definition getattr :: "(string \<rightharpoonup> cell) \<Rightarrow> string \<Rightarrow> py_error + cell" where
  "getattr obj name = (case obj name of None \<Rightarrow> Inl (AttributeError name) | Some v \<Rightarrow> Inr v)"

text \<open>The entries of \<open>data_dict\<close> are evaluated in order; the first failure ends it.\<close>

fun getattrs :: "(string \<rightharpoonup> cell) \<Rightarrow> string list \<Rightarrow> py_error + cell list" where
  "getattrs obj [] = Inr []"
| "getattrs obj (name # names) =
     (case getattr obj name of
        Inl e \<Rightarrow> Inl e
      | Inr v \<Rightarrow> (case getattrs obj names of Inl e \<Rightarrow> Inl e | Inr vs \<Rightarrow> Inr (v # vs)))"

definition attribute_names :: "string list" where
  "attribute_names =
     [''latitude'', ''longitude'', ''month'', ''day'', ''year'', ''avg_temp'', ''min_temp'',
      ''max_temp'', ''avg_wind'', ''min_wind'', ''max_wind'', ''sum_precip'', ''min_precip'',
      ''max_precip'']"

definition csv_columns :: "string list" where
  "csv_columns =
     [''Latitude'', ''Longitude'', ''Month'', ''Day'', ''Year'', ''Average_Temperature_F'',
      ''Minimum_Temperature_F'', ''Maximum_Temperature_F'', ''Average_Wind_Speed_mph'',
      ''Minimum_Wind_Speed_mph'', ''Maximum_Wind_Speed_mph'', ''Total_Precipitation_inches'',
      ''Minimum_Precipitation_inches'', ''Maximum_Precipitation_inches'']"

fun join_comma :: "string list \<Rightarrow> string" where
  "join_comma [] = []"
| "join_comma [x] = x"
| "join_comma (x # y # zs) = x @ '','' @ join_comma (y # zs)"

text \<open>
  \<open>df.to_csv(index=False)\<close> of a one-row frame: the header line and the line of values,
  each ended by a newline. How a value is written is a parameter.
\<close>

definition to_csv :: "(cell \<Rightarrow> string) \<Rightarrow> string list \<Rightarrow> cell list \<Rightarrow> string" where
  "to_csv fmt header row =
     join_comma header @ [CHR 0x0A] @ join_comma (map fmt row) @ [CHR 0x0A]"

text \<open>The result: the exceptions shown with \<open>st.error\<close>, and the string returned.\<close>

definition format_weather_data ::
  "(cell \<Rightarrow> string) \<Rightarrow> (string \<rightharpoonup> cell) \<Rightarrow> py_error list \<times> string" where
  "format_weather_data fmt weather_data =
     (case getattrs weather_data attribute_names of
        Inl e \<Rightarrow> ([e], [])
      | Inr vs \<Rightarrow> ([], to_csv fmt csv_columns vs))"

section \<open>The analysis run (app.py, run_weather_analysis)\<close>

text \<open>
  What a run can change: the table of the record store, the three entries of
  \<open>st.session_state\<close>, and the errors shown to the user.
\<close>

record app_state =
  table :: "pyfloat weather_summary list"
  session_metrics :: "pyfloat weather_summary option"
  session_weather_data :: "pyfloat weather_summary option"
  analysis_complete :: bool
  errors_shown :: "py_error list"

text \<open>
  Every exception of the \<open>try\<close> block ends in the \<open>except\<close> branch, which shows it. The
  \<open>WeatherData\<close> row and \<open>weather_dict\<close> copy the fourteen fields of \<open>metrics\<close>.
\<close>

definition run_weather_analysis ::
  "(real \<Rightarrow> real) \<Rightarrow> (api_request \<Rightarrow> py_error + api_response list) \<Rightarrow> py_error option
     \<Rightarrow> int \<Rightarrow> real \<Rightarrow> real \<Rightarrow> pydate \<Rightarrow> app_state \<Rightarrow> app_state" where
  "run_weather_analysis rnd openmeteo failure now lat lon target_date st =
     (case WeatherMetrics rnd openmeteo now lat lon
             (dmonth target_date) (dday target_date) (dyear target_date) of
        Inl e \<Rightarrow> st\<lparr>errors_shown := errors_shown st @ [e]\<rparr>
      | Inr metrics \<Rightarrow>
         (case insert_data failure (table st) metrics of
            (Inl e, table', session) \<Rightarrow>
              st\<lparr>table := table', errors_shown := errors_shown st @ [e]\<rparr>
          | (Inr u, table', session) \<Rightarrow>
              st\<lparr>table := table', session_metrics := Some metrics,
                 session_weather_data := Some metrics, analysis_complete := True\<rparr>))"

section \<open>Sample archives\<close>

text \<open>
  An archive that answers every request with the one day asked for: the maximum and the
  mean temperature depend on the year, the other values are the same each year.
\<close>

definition archive_sample :: "api_request \<Rightarrow> py_error + api_response list" where
  "archive_sample rq =
     Inr [\<lparr>daily_dates = [start_date rq],
           variables0 = [Num (of_int (dyear (start_date rq)) - 1940)],
           variables1 = [Num 60],
           variables2 = [Num (70 + of_int (dyear (start_date rq) mod 5))],
           variables3 = [Num 0.25], variables4 = [Num 12], variables5 = [Num 30]\<rparr>]"

text \<open>The same archive, failing for the year 2022.\<close>

definition archive_gap :: "api_request \<Rightarrow> py_error + api_response list" where
  "archive_gap rq =
     (if dyear (start_date rq) = 2022 then Inl (UpstreamError ''timeout'')
      else archive_sample rq)"

text \<open>
  The same archive, answering for the year 2024 with a day whose six values are missing.
\<close>

definition archive_nan_year :: "api_request \<Rightarrow> py_error + api_response list" where
  "archive_nan_year rq =
     (if dyear (start_date rq) = 2024
      then Inr [\<lparr>daily_dates = [start_date rq], variables0 = [NaN], variables1 = [NaN],
                 variables2 = [NaN], variables3 = [NaN], variables4 = [NaN],
                 variables5 = [NaN]\<rparr>]
      else archive_sample rq)"




text \<open>The frame of the five days 23 June 2024 down to 23 June 2020 of \<open>archive_sample\<close>.\<close>

definition sample_frame :: daily_data where
  "sample_frame =
     \<lparr>date = [\<lparr>dyear = 2024, dmonth = 6, dday = 23\<rparr>, \<lparr>dyear = 2023, dmonth = 6, dday = 23\<rparr>,
              \<lparr>dyear = 2022, dmonth = 6, dday = 23\<rparr>, \<lparr>dyear = 2021, dmonth = 6, dday = 23\<rparr>,
              \<lparr>dyear = 2020, dmonth = 6, dday = 23\<rparr>],
      temperature_2m_max = [Num 84, Num 83, Num 82, Num 81, Num 80],
      temperature_2m_min = [Num 60, Num 60, Num 60, Num 60, Num 60],
      temperature_2m_mean = [Num 74, Num 73, Num 72, Num 71, Num 70],
      precipitation_sum = [Num 0.25, Num 0.25, Num 0.25, Num 0.25, Num 0.25],
      wind_speed_10m_max = [Num 12, Num 12, Num 12, Num 12, Num 12],
      wind_gusts_10m_max = [Num 30, Num 30, Num 30, Num 30, Num 30]\<rparr>"

text \<open>
  The frame of the same five days of \<open>archive_nan_year\<close>: the values of 2024 are missing.
\<close>

definition nan_frame :: daily_data where
  "nan_frame =
     \<lparr>date = [\<lparr>dyear = 2024, dmonth = 6, dday = 23\<rparr>, \<lparr>dyear = 2023, dmonth = 6, dday = 23\<rparr>,
              \<lparr>dyear = 2022, dmonth = 6, dday = 23\<rparr>, \<lparr>dyear = 2021, dmonth = 6, dday = 23\<rparr>,
              \<lparr>dyear = 2020, dmonth = 6, dday = 23\<rparr>],
      temperature_2m_max = [NaN, Num 83, Num 82, Num 81, Num 80],
      temperature_2m_min = [NaN, Num 60, Num 60, Num 60, Num 60],
      temperature_2m_mean = [NaN, Num 73, Num 72, Num 71, Num 70],
      precipitation_sum = [NaN, Num 0.25, Num 0.25, Num 0.25, Num 0.25],
      wind_speed_10m_max = [NaN, Num 12, Num 12, Num 12, Num 12],
      wind_gusts_10m_max = [NaN, Num 30, Num 30, Num 30, Num 30]\<rparr>"

text \<open>A frame of five days with values that differ from day to day.\<close>

definition mixed_frame :: daily_data where
  "mixed_frame =
     \<lparr>date = [\<lparr>dyear = 2024, dmonth = 6, dday = 23\<rparr>, \<lparr>dyear = 2023, dmonth = 6, dday = 23\<rparr>,
              \<lparr>dyear = 2022, dmonth = 6, dday = 23\<rparr>, \<lparr>dyear = 2021, dmonth = 6, dday = 23\<rparr>,
              \<lparr>dyear = 2020, dmonth = 6, dday = 23\<rparr>],
      temperature_2m_max = [Num 88, Num 91, Num 86, Num 90, Num 87],
      temperature_2m_min = [Num 66, Num 64, Num 69, Num 65, Num 68],
      temperature_2m_mean = [Num 70, Num 72, Num 74, Num 71, Num 73],
      precipitation_sum = [Num 0, Num 0.5, Num 0.25, Num 0, Num 0.25],
      wind_speed_10m_max = [Num 12, Num 9, Num 15, Num 11, Num 13],
      wind_gusts_10m_max = [Num 30, Num 22, Num 41, Num 25, Num 28]\<rparr>"

text \<open>The state of the application before any analysis has run.\<close>

definition initial_state :: app_state where
  "initial_state =
     \<lparr>table = [], session_metrics = None, session_weather_data = None,
      analysis_complete = False, errors_shown = []\<rparr>"

text \<open>An object with the fourteen attributes of a summary, and the same without \<open>year\<close>.\<close>

definition sample_object :: "string \<rightharpoonup> cell" where
  "sample_object =
     map_of [(''latitude'', FloatCell 25.7743), (''longitude'', FloatCell (-80.1937)),
       (''month'', IntCell 6), (''day'', IntCell 23), (''year'', IntCell 2025),
       (''avg_temp'', FloatCell 72), (''min_temp'', FloatCell 60), (''max_temp'', FloatCell 84),
       (''avg_wind'', FloatCell 12), (''min_wind'', FloatCell 12), (''max_wind'', FloatCell 12),
       (''sum_precip'', FloatCell 1), (''min_precip'', FloatCell 0.2),
       (''max_precip'', FloatCell 0.2)]"

definition object_without_year :: "string \<rightharpoonup> cell" where
  "object_without_year = sample_object(''year'' := None)"

text \<open>A way of writing a value that tells only its kind.\<close>

definition kind_fmt :: "cell \<Rightarrow> string" where
  "kind_fmt c = (case c of IntCell n \<Rightarrow> ''int'' | FloatCell x \<Rightarrow> ''float'')"

text \<open>A summary with given temperature, wind and precipitation figures, for the examples.\<close>

definition summary_of :: "real \<Rightarrow> real \<Rightarrow> real \<Rightarrow> real weather_summary" where
  "summary_of t v p =
     \<lparr>latitude = 25.7743, longitude = -80.1937, month = 6, day = 23, year = 2025,
      avg_temp = t, min_temp = t, max_temp = t, avg_wind = v, min_wind = v, max_wind = v,
      sum_precip = p, min_precip = 0, max_precip = p\<rparr>"

section \<open>Theorems\<close>

lemma temp_risk_add: "temp_risk t rf = rf + temp_risk t 0"
  by (simp add: temp_risk_def)

lemma wind_risk_add: "wind_risk v rf = rf + wind_risk v 0"
  by (simp add: wind_risk_def)

lemma precip_risk_add: "precip_risk p rf = rf + precip_risk p 0"
  by (simp add: precip_risk_def)

lemma risk_factors_sum:
  "risk_factors w =
     (if max_temp w > 90 then 2 else if max_temp w > 85 then 1 else 0)
   + (if max_wind w > 25 then 2 else if max_wind w > 15 then 1 else 0)
   + (if sum_precip w > 1.0 then 2 else if sum_precip w > 0.5 then 1 else (0::int))"
  unfolding risk_factors_def
  by (subst precip_risk_add, subst wind_risk_add)
     (simp add: temp_risk_def wind_risk_def precip_risk_def)

text \<open>
  C3: the risk level comes from the sum of three tier values, each decided by strict
  inequalities, and is High from 4, Medium from 2 to 3 and Low below; a maximum temperature
  of exactly 90 counts 1, not 2, and one of exactly 85 counts 0.
\<close>

theorem calculate_weather_risk_spec:
  "calculate_weather_risk w =
     (let rf = (if max_temp w > 90 then 2 else if max_temp w > 85 then 1 else 0)
             + (if max_wind w > 25 then 2 else if max_wind w > 15 then 1 else 0)
             + (if sum_precip w > 1.0 then 2 else if sum_precip w > 0.5 then 1 else (0::int))
      in if rf \<ge> 4 then \<lparr>level = ''High'', description = ''Consider indoor alternatives''\<rparr>
         else if 2 \<le> rf \<and> rf < 4
           then \<lparr>level = ''Medium'', description = ''Have backup plans ready''\<rparr>
         else \<lparr>level = ''Low'', description = ''Good conditions expected''\<rparr>)
   \<and> temp_risk 90 0 = 1 \<and> temp_risk 85 0 = 0
   \<and> wind_risk 25 0 = 1 \<and> wind_risk 15 0 = 0
   \<and> precip_risk 1.0 0 = 1 \<and> precip_risk 0.5 0 = 0"
proof -
  have "calculate_weather_risk w =
     (let rf = (if max_temp w > 90 then 2 else if max_temp w > 85 then 1 else 0)
             + (if max_wind w > 25 then 2 else if max_wind w > 15 then 1 else 0)
             + (if sum_precip w > 1.0 then 2 else if sum_precip w > 0.5 then 1 else (0::int))
      in if rf \<ge> 4 then \<lparr>level = ''High'', description = ''Consider indoor alternatives''\<rparr>
         else if 2 \<le> rf \<and> rf < 4
           then \<lparr>level = ''Medium'', description = ''Have backup plans ready''\<rparr>
         else \<lparr>level = ''Low'', description = ''Good conditions expected''\<rparr>)"
    unfolding calculate_weather_risk_def risk_factors_sum Let_def by simp
  moreover have "temp_risk 90 0 = 1 \<and> temp_risk 85 0 = 0"
    by (simp add: temp_risk_def)
  moreover have "wind_risk 25 0 = 1 \<and> wind_risk 15 0 = 0"
    by (simp add: wind_risk_def)
  moreover have "precip_risk 1.0 0 = 1 \<and> precip_risk 0.5 0 = 0"
    by (simp add: precip_risk_def)
  ultimately show ?thesis by simp
qed

theorem calculate_weather_risk_spec_witness:
  "level (calculate_weather_risk (summary_of 91 10 0.2)) = ''Medium''
   \<and> level (calculate_weather_risk (summary_of 80 5 0)) = ''Low''
   \<and> calculate_weather_risk (summary_of 95 30 1.5)
       = \<lparr>level = ''High'', description = ''Consider indoor alternatives''\<rparr>"
  using calculate_weather_risk_spec [of "summary_of 91 10 0.2"]
    calculate_weather_risk_spec [of "summary_of 80 5 0"]
    calculate_weather_risk_spec [of "summary_of 95 30 1.5"]
  by (simp add: summary_of_def)

lemma temp_scoring_eq: "temp_scoring t s = s - tempDeduction t"
  by (simp add: temp_scoring_def tempDeduction_def)

lemma wind_scoring_eq: "wind_scoring v s = s - windDeduction v"
  by (simp add: wind_scoring_def windDeduction_def)

lemma precip_scoring_eq: "precip_scoring p s = s - precipDeduction p"
  by (simp add: precip_scoring_def precipDeduction_def)

lemma score_before_clamp_eq:
  "score_before_clamp w =
     100 - tempDeduction (avg_temp w) - windDeduction (max_wind w) - precipDeduction (sum_precip w)"
  by (simp add: score_before_clamp_def temp_scoring_eq wind_scoring_eq precip_scoring_eq)

lemma tempDeduction_bounds: "0 \<le> tempDeduction t \<and> tempDeduction t \<le> 30"
  by (simp add: tempDeduction_def)

lemma windDeduction_bounds: "0 \<le> windDeduction v \<and> windDeduction v \<le> 25"
  by (simp add: windDeduction_def)

lemma precipDeduction_bounds: "0 \<le> precipDeduction p \<and> precipDeduction p \<le> 20"
  by (simp add: precipDeduction_def)

text \<open>
  C4: the suitability score is max(0, 100 - tempDeduction - windDeduction - precipDeduction)
  with the three deductions of the specification; a summary with avg_temp 75, max_wind 5 and
  sum_precip 0 scores 100, and one with avg_temp 55, max_wind 30 and sum_precip 1.2 scores 25.
\<close>

theorem suitability_score_spec:
  "calculate_weather_suitability_score w =
     max 0 (100 - tempDeduction (avg_temp w) - windDeduction (max_wind w)
                - precipDeduction (sum_precip w))
   \<and> calculate_weather_suitability_score (summary_of 75 5 0) = 100
   \<and> calculate_weather_suitability_score (summary_of 55 30 1.2) = 25"
proof -
  have "calculate_weather_suitability_score (summary_of 75 5 0) = 100"
    by (simp add: calculate_weather_suitability_score_def score_before_clamp_eq summary_of_def
        tempDeduction_def windDeduction_def precipDeduction_def)
  moreover have "calculate_weather_suitability_score (summary_of 55 30 1.2) = 25"
    by (simp add: calculate_weather_suitability_score_def score_before_clamp_eq summary_of_def
        tempDeduction_def windDeduction_def precipDeduction_def)
  ultimately show ?thesis
    by (simp add: calculate_weather_suitability_score_def score_before_clamp_eq)
qed

theorem suitability_score_spec_witness:
  "calculate_weather_suitability_score (summary_of 65 12 0.3) = 70
   \<and> calculate_weather_suitability_score (summary_of 95 20 0.5) = 50"
  using suitability_score_spec [of "summary_of 65 12 0.3"]
    suitability_score_spec [of "summary_of 95 20 0.5"]
  by (simp add: summary_of_def tempDeduction_def windDeduction_def precipDeduction_def)

text \<open>
  C9: the three deductions total at most 75, the score before the clamp is at least 25, the
  clamp \<open>max(0, score)\<close> returns that score unchanged, and the returned score lies in
  [25, 100].
\<close>

theorem suitability_score_range:
  "100 - score_before_clamp w \<le> 75
   \<and> 25 \<le> score_before_clamp w
   \<and> calculate_weather_suitability_score w = score_before_clamp w
   \<and> 25 \<le> calculate_weather_suitability_score w
   \<and> calculate_weather_suitability_score w \<le> 100"
  using tempDeduction_bounds [of "avg_temp w"] windDeduction_bounds [of "max_wind w"]
    precipDeduction_bounds [of "sum_precip w"]
  by (simp add: calculate_weather_suitability_score_def score_before_clamp_eq)

theorem suitability_score_range_witness:
  "score_before_clamp (summary_of 95 30 2) = 25
   \<and> calculate_weather_suitability_score (summary_of 95 30 2) = 25"
proof -
  have "score_before_clamp (summary_of 95 30 2) = 25"
    by (simp add: score_before_clamp_def summary_of_def temp_scoring_def wind_scoring_def
        precip_scoring_def)
  then show ?thesis using suitability_score_range [of "summary_of 95 30 2"] by simp
qed








text \<open>
  C10: when the commit inside \<open>insert_data\<close> fails, the session is rolled back and the same
  exception reaches the caller, with the table as it was; when it goes through the row is
  appended; and on either path the session ends closed.
\<close>

theorem insert_data_rollback:
  "insert_data (Some e) tbl data =
     (Inl e, tbl, \<lparr>pending = [], rolled_back = True, closed = True\<rparr>)
   \<and> insert_data None tbl data =
     (Inr (), tbl @ [data], \<lparr>pending = [], rolled_back = False, closed = True\<rparr>)
   \<and> closed (snd (snd (insert_data failure tbl data)))"
  by (cases failure)
    (simp_all add: insert_data_def session_commit_def session_add_def new_session_def
      session_rollback_def session_close_def)

theorem insert_data_rollback_witness:
  "fst (insert_data (Some (DatabaseError ''database is locked'')) [summary_of 75 5 0]
          (summary_of 55 30 1.2))
     = Inl (DatabaseError ''database is locked'')
   \<and> fst (snd (insert_data (Some (DatabaseError ''database is locked'')) [summary_of 75 5 0]
          (summary_of 55 30 1.2)))
     = [summary_of 75 5 0]
   \<and> fst (snd (insert_data None [summary_of 75 5 0] (summary_of 55 30 1.2)))
     = [summary_of 75 5 0, summary_of 55 30 1.2]"
  using insert_data_rollback [of "DatabaseError ''database is locked''" "[summary_of 75 5 0]"
      "summary_of 55 30 1.2" None]
  by simp

lemma getattrs_Inl_iff:
  "(\<exists>e. getattrs obj names = Inl e) \<longleftrightarrow> (\<exists>n \<in> set names. obj n = None)"
  by (induction names) (auto simp add: getattr_def split: option.splits sum.splits)

lemma to_csv_nonempty: "to_csv fmt header row \<noteq> []"
  by (simp add: to_csv_def)

text \<open>
  C8, as stated, fails: after a failed read \<open>fetch\<close> hands its caller the same value as for
  a date without rows, and \<open>get_all_records\<close> the same value as for an empty table.
\<close>

theorem read_failure_counterexample:
  "snd (fetch (Some ''database is locked'') [] 6 23 2025) = snd (fetch None [] 6 23 2025)
   \<and> snd (get_all_records (Some ''database is locked'') []) = snd (get_all_records None [])"
  by (simp add: fetch_def get_all_records_def)

text \<open>
  C8, amended: a failed read is caught inside the record store; \<open>fetch\<close> prints an error
  line and returns None, \<open>get_all_records\<close> prints an error line and returns the empty
  list, which are the values returned for an empty result, so that only the printed line
  differs. A CSV export that fails shows one error and returns the empty string; one that
  succeeds shows none and returns a string that is not empty.
\<close>

theorem failure_reporting:
  "fetch (Some msg) tbl m d y = ([PrintedFetchError msg], None)
   \<and> fetch None [] m d y = ([PrintedNoData], None)
   \<and> get_all_records (Some msg) tbl = ([PrintedAllRecordsError msg], [])
   \<and> get_all_records None [] = ([], [])
   \<and> ((\<exists>n \<in> set attribute_names. weather_data n = None) \<longrightarrow>
        (\<exists>e. format_weather_data fmt weather_data = ([e], [])))
   \<and> ((\<forall>n \<in> set attribute_names. weather_data n \<noteq> None) \<longrightarrow>
        fst (format_weather_data fmt weather_data) = []
        \<and> snd (format_weather_data fmt weather_data) \<noteq> [])"
proof -
  have a: "(\<exists>n \<in> set attribute_names. weather_data n = None) \<longrightarrow>
        (\<exists>e. format_weather_data fmt weather_data = ([e], []))"
    using getattrs_Inl_iff [of weather_data attribute_names]
    by (auto simp add: format_weather_data_def)
  have b: "(\<forall>n \<in> set attribute_names. weather_data n \<noteq> None) \<longrightarrow>
        fst (format_weather_data fmt weather_data) = []
        \<and> snd (format_weather_data fmt weather_data) \<noteq> []"
    using getattrs_Inl_iff [of weather_data attribute_names] to_csv_nonempty
    by (auto simp add: format_weather_data_def split: sum.splits)
  show ?thesis using a b by (simp add: fetch_def get_all_records_def)
qed

theorem failure_reporting_witness:
  "(\<exists>n \<in> set attribute_names. object_without_year n = None)
   \<and> format_weather_data kind_fmt object_without_year = ([AttributeError ''year''], [])
   \<and> sample_object ''year'' = Some (IntCell 2025)
   \<and> fst (format_weather_data kind_fmt sample_object) = []
   \<and> snd (format_weather_data kind_fmt sample_object) \<noteq> []"
proof -
  have 1: "format_weather_data kind_fmt object_without_year = ([AttributeError ''year''], [])"
    by (simp add: format_weather_data_def attribute_names_def getattr_def
        object_without_year_def sample_object_def)
  have 2: "\<forall>n \<in> set attribute_names. sample_object n \<noteq> None"
    by (simp add: attribute_names_def sample_object_def)
  have 3: "\<exists>n \<in> set attribute_names. object_without_year n = None"
    by (simp add: attribute_names_def object_without_year_def)
  have 4: "sample_object ''year'' = Some (IntCell 2025)"
    by (simp add: sample_object_def)
  note shown = failure_reporting [of "''database is locked''" "[] :: real weather_summary list"
      6 23 2025 sample_object kind_fmt, THEN conjunct2, THEN conjunct2, THEN conjunct2,
      THEN conjunct2, THEN conjunct2]
  note failed = failure_reporting [of "''database is locked''" "[] :: real weather_summary list"
      6 23 2025 object_without_year kind_fmt, THEN conjunct2, THEN conjunct2, THEN conjunct2,
      THEN conjunct2, THEN conjunct1]
  show ?thesis
    using 1 2 3 4 shown failed by simp
qed

lemma first_Inr_iff: "first xs = Inr x \<longleftrightarrow> (xs \<noteq> [] \<and> x = hd xs)"
  by (cases xs) auto

lemma first_Inl_iff: "first xs = Inl e \<longleftrightarrow> (xs = [] \<and> e = IndexError)"
  by (cases xs) auto

lemma first_hd: "xs \<noteq> [] \<Longrightarrow> first xs = Inr (hd xs)"
  by (simp add: first_Inr_iff)

lemma append_first_ok:
  "has_first_day r \<Longrightarrow>
   append_first acc r =
     Inr \<lparr>date = date acc @ [hd (date r)],
          temperature_2m_max = temperature_2m_max acc @ [hd (temperature_2m_max r)],
          temperature_2m_min = temperature_2m_min acc @ [hd (temperature_2m_min r)],
          temperature_2m_mean = temperature_2m_mean acc @ [hd (temperature_2m_mean r)],
          precipitation_sum = precipitation_sum acc @ [hd (precipitation_sum r)],
          wind_speed_10m_max = wind_speed_10m_max acc @ [hd (wind_speed_10m_max r)],
          wind_gusts_10m_max = wind_gusts_10m_max acc @ [hd (wind_gusts_10m_max r)]\<rparr>"
  by (simp add: append_first_def has_first_day_def first_hd)

lemma append_first_fail:
  "\<not> has_first_day r \<Longrightarrow> append_first acc r = Inl IndexError"
  unfolding append_first_def has_first_day_def
  by (auto simp add: first_Inl_iff first_Inr_iff split: sum.splits)

lemma append_first_Inr_iff:
  "(\<exists>acc'. append_first acc r = Inr acc') \<longleftrightarrow> has_first_day r"
proof (cases "has_first_day r")
  case True
  then show ?thesis using append_first_ok [of r acc] by simp
next
  case False
  then show ?thesis using append_first_fail [of r acc] by simp
qed

lemma year_loop_fetch_fails:
  "i \<in> set years \<Longrightarrow> fetch_year openmeteo lat lon now m d i = Inl e \<Longrightarrow>
   \<exists>e'. year_loop openmeteo lat lon now m d years acc = Inl e'"
proof (induction years arbitrary: acc)
  case Nil
  then show ?case by simp
next
  case (Cons j rest)
  show ?case
  proof (cases "fetch_year openmeteo lat lon now m d j")
    case (Inl e1)
    then show ?thesis by simp
  next
    case (Inr r)
    then have "i \<noteq> j" using Cons.prems by auto
    then have "i \<in> set rest" using Cons.prems by simp
    then show ?thesis
      using Inr Cons.IH Cons.prems(2) by (cases "append_first acc r") simp_all
  qed
qed

lemma year_loop_no_first_day:
  "i \<in> set years \<Longrightarrow> fetch_year openmeteo lat lon now m d i = Inr r \<Longrightarrow> \<not> has_first_day r \<Longrightarrow>
   \<exists>e'. year_loop openmeteo lat lon now m d years acc = Inl e'"
proof (induction years arbitrary: acc)
  case Nil
  then show ?case by simp
next
  case (Cons j rest)
  show ?case
  proof (cases "fetch_year openmeteo lat lon now m d j")
    case (Inl e1)
    then show ?thesis by simp
  next
    case (Inr r')
    show ?thesis
    proof (cases "append_first acc r'")
      case (Inl e2)
      then show ?thesis using Inr by simp
    next
      case (Inr acc')
      then have "has_first_day r'" using append_first_Inr_iff by blast
      then have "i \<noteq> j" using \<open>fetch_year openmeteo lat lon now m d j = Inr r'\<close> Cons.prems by auto
      then have "i \<in> set rest" using Cons.prems by simp
      then show ?thesis
        using Inr \<open>fetch_year openmeteo lat lon now m d j = Inr r'\<close> Cons.IH Cons.prems by simp
    qed
  qed
qed

lemma year_loop_lengths:
  "year_loop openmeteo lat lon now m d years acc = Inr df \<Longrightarrow>
   length (date df) = length (date acc) + length years
   \<and> length (temperature_2m_max df) = length (temperature_2m_max acc) + length years
   \<and> length (temperature_2m_min df) = length (temperature_2m_min acc) + length years
   \<and> length (temperature_2m_mean df) = length (temperature_2m_mean acc) + length years
   \<and> length (precipitation_sum df) = length (precipitation_sum acc) + length years
   \<and> length (wind_speed_10m_max df) = length (wind_speed_10m_max acc) + length years
   \<and> length (wind_gusts_10m_max df) = length (wind_gusts_10m_max acc) + length years"
proof (induction years arbitrary: acc)
  case Nil
  then show ?case by simp
next
  case (Cons j rest)
  from Cons.prems obtain r where r: "fetch_year openmeteo lat lon now m d j = Inr r"
    by (cases "fetch_year openmeteo lat lon now m d j") simp_all
  from Cons.prems r obtain acc' where acc': "append_first acc r = Inr acc'"
    by (cases "append_first acc r") simp_all
  then have "has_first_day r" using append_first_Inr_iff by blast
  then have eq: "acc' = \<lparr>date = date acc @ [hd (date r)],
          temperature_2m_max = temperature_2m_max acc @ [hd (temperature_2m_max r)],
          temperature_2m_min = temperature_2m_min acc @ [hd (temperature_2m_min r)],
          temperature_2m_mean = temperature_2m_mean acc @ [hd (temperature_2m_mean r)],
          precipitation_sum = precipitation_sum acc @ [hd (precipitation_sum r)],
          wind_speed_10m_max = wind_speed_10m_max acc @ [hd (wind_speed_10m_max r)],
          wind_gusts_10m_max = wind_gusts_10m_max acc @ [hd (wind_gusts_10m_max r)]\<rparr>"
    using append_first_ok [of r acc] acc' by simp
  have "year_loop openmeteo lat lon now m d rest acc' = Inr df"
    using Cons.prems r acc' by simp
  from Cons.IH [OF this] show ?case by (simp add: eq)
qed

lemma get_data_for_date_five_rows:
  "get_data_for_date openmeteo lat lon now m d = Inr df \<Longrightarrow> five_rows df"
  unfolding get_data_for_date_def
  by (drule year_loop_lengths) (simp add: five_rows_def chosen_date_data_init_def)

lemma series_min_least: "least_of (series_min xs) (present xs)"
proof (cases "present xs")
  case Nil
  then show ?thesis by (simp add: series_min_def least_of_def)
next
  case (Cons v vs)
  have "Min (set (v # vs)) \<in> set (v # vs)" by (rule Min_in) simp_all
  moreover have "\<forall>x \<in> set (v # vs). Min (set (v # vs)) \<le> x" by simp
  ultimately show ?thesis
    unfolding series_min_def least_of_def Cons by (auto simp del: set_simps Min_insert)
qed

lemma series_max_greatest: "greatest_of (series_max xs) (present xs)"
proof (cases "present xs")
  case Nil
  then show ?thesis by (simp add: series_max_def greatest_of_def)
next
  case (Cons v vs)
  have "Max (set (v # vs)) \<in> set (v # vs)" by (rule Max_in) simp_all
  moreover have "\<forall>x \<in> set (v # vs). x \<le> Max (set (v # vs))" by simp
  ultimately show ?thesis
    unfolding series_max_def greatest_of_def Cons by (auto simp del: set_simps Max_insert)
qed

lemma foldl_add_sum_list: "foldl (\<lambda>acc v. acc + v) a vs = a + sum_list (vs :: real list)"
  by (induction vs arbitrary: a) (simp_all add: add.assoc)

lemma float_sum_no_rounding: "float_sum no_rounding vs = sum_list vs"
  by (simp add: float_sum_def no_rounding_def foldl_add_sum_list)

lemma float_mean_no_rounding:
  "float_mean no_rounding vs = (if vs = [] then NaN else Num (sum_list vs / real (length vs)))"
  by (simp add: float_mean_def float_sum_no_rounding) (simp add: no_rounding_def)

lemma present_none_missing: "NaN \<notin> set xs \<Longrightarrow> map Num (present xs) = xs"
proof (induction xs)
  case Nil
  then show ?case by simp
next
  case (Cons x xs)
  then show ?case by (cases x) simp_all
qed

lemma length_present_none_missing: "NaN \<notin> set xs \<Longrightarrow> length (present xs) = length xs"
  using present_none_missing [of xs] by (metis length_map)

text \<open>
  C1, as stated, fails: in the frame of five rows whose values for 2024 are missing, the
  mean temperature is computed from the four values of the other years (286 / 4 = 71.5) and
  the precipitation sum from four values (1.0), while the mean and the sum of the five
  values of these columns are NaN.
\<close>

theorem statistics_skip_missing_counterexample:
  "five_rows nan_frame
   \<and> avg_temp (assign_statistics no_rounding (new_metrics 25.7743 (-80.1937) 6 23 2025) nan_frame)
       = Num 71.5
   \<and> mean_of_all (temperature_2m_mean nan_frame) = NaN
   \<and> sum_precip (assign_statistics no_rounding (new_metrics 25.7743 (-80.1937) 6 23 2025) nan_frame)
       = Num 1
   \<and> sum_of_all (precipitation_sum nan_frame) = NaN"
  by (simp add: five_rows_def nan_frame_def assign_statistics_def calc_avg_temp_def
      calc_total_precip_def series_mean_def series_sum_def float_mean_no_rounding
      float_sum_no_rounding mean_of_all_def sum_of_all_def)

text \<open>
  C1, amended: on a frame of five rows every statistic is taken over the values of its
  column that are not missing (NaN), in float32 arithmetic: avg_temp is the mean of the
  present daily mean temperatures, min_temp the least of the present daily minimum
  temperatures, max_temp the greatest of the present daily maximum temperatures, avg_wind,
  min_wind and max_wind the mean, least and greatest of the present daily maximum wind
  speeds, and sum_precip, min_precip and max_precip the sum, least and greatest of the
  present daily precipitation sums; the wind-gust column has no influence. A column with
  no missing value has all five values present; where nothing is rounded the mean is the
  sum of the present values divided by their number and the sum is their sum; a column
  whose values are all missing gives NaN, and 0 for the sum.
\<close>

theorem assign_statistics_spec:
  assumes "five_rows df"
  shows "(let s = assign_statistics rnd self df in
      avg_temp s = float_mean rnd (present (temperature_2m_mean df))
    \<and> least_of (min_temp s) (present (temperature_2m_min df))
    \<and> greatest_of (max_temp s) (present (temperature_2m_max df))
    \<and> avg_wind s = float_mean rnd (present (wind_speed_10m_max df))
    \<and> least_of (min_wind s) (present (wind_speed_10m_max df))
    \<and> greatest_of (max_wind s) (present (wind_speed_10m_max df))
    \<and> sum_precip s = Num (float_sum rnd (present (precipitation_sum df)))
    \<and> least_of (min_precip s) (present (precipitation_sum df))
    \<and> greatest_of (max_precip s) (present (precipitation_sum df))
    \<and> assign_statistics rnd self (df\<lparr>wind_gusts_10m_max := gusts\<rparr>) = s)
   \<and> (NaN \<notin> set (temperature_2m_mean df) \<longrightarrow> length (present (temperature_2m_mean df)) = 5)
   \<and> (NaN \<notin> set (temperature_2m_min df) \<longrightarrow> length (present (temperature_2m_min df)) = 5)
   \<and> (NaN \<notin> set (temperature_2m_max df) \<longrightarrow> length (present (temperature_2m_max df)) = 5)
   \<and> (NaN \<notin> set (wind_speed_10m_max df) \<longrightarrow> length (present (wind_speed_10m_max df)) = 5)
   \<and> (NaN \<notin> set (precipitation_sum df) \<longrightarrow> length (present (precipitation_sum df)) = 5)
   \<and> float_mean no_rounding vs = (if vs = [] then NaN else Num (sum_list vs / real (length vs)))
   \<and> float_sum no_rounding vs = sum_list vs
   \<and> float_mean rnd [] = NaN \<and> float_sum rnd [] = 0"
proof -
  have stats: "(let s = assign_statistics rnd self df in
      avg_temp s = float_mean rnd (present (temperature_2m_mean df))
    \<and> least_of (min_temp s) (present (temperature_2m_min df))
    \<and> greatest_of (max_temp s) (present (temperature_2m_max df))
    \<and> avg_wind s = float_mean rnd (present (wind_speed_10m_max df))
    \<and> least_of (min_wind s) (present (wind_speed_10m_max df))
    \<and> greatest_of (max_wind s) (present (wind_speed_10m_max df))
    \<and> sum_precip s = Num (float_sum rnd (present (precipitation_sum df)))
    \<and> least_of (min_precip s) (present (precipitation_sum df))
    \<and> greatest_of (max_precip s) (present (precipitation_sum df))
    \<and> assign_statistics rnd self (df\<lparr>wind_gusts_10m_max := gusts\<rparr>) = s)"
    by (simp add: Let_def assign_statistics_def calc_avg_temp_def calc_wind_speed_max_def
        calc_total_precip_def series_mean_def series_sum_def series_min_least
        series_max_greatest)
  have len: "length (temperature_2m_mean df) = 5" "length (temperature_2m_min df) = 5"
    "length (temperature_2m_max df) = 5" "length (wind_speed_10m_max df) = 5"
    "length (precipitation_sum df) = 5"
    using assms by (simp_all add: five_rows_def)
  have all5: "NaN \<notin> set (temperature_2m_mean df) \<longrightarrow> length (present (temperature_2m_mean df)) = 5"
    "NaN \<notin> set (temperature_2m_min df) \<longrightarrow> length (present (temperature_2m_min df)) = 5"
    "NaN \<notin> set (temperature_2m_max df) \<longrightarrow> length (present (temperature_2m_max df)) = 5"
    "NaN \<notin> set (wind_speed_10m_max df) \<longrightarrow> length (present (wind_speed_10m_max df)) = 5"
    "NaN \<notin> set (precipitation_sum df) \<longrightarrow> length (present (precipitation_sum df)) = 5"
    using len by (simp_all add: length_present_none_missing)
  have none: "float_mean rnd [] = NaN \<and> float_sum rnd [] = 0"
    by (simp add: float_mean_def float_sum_def)
  show ?thesis
    using stats all5 none float_mean_no_rounding [of vs] float_sum_no_rounding [of vs]
    by simp
qed

theorem assign_statistics_spec_witness:
  "five_rows mixed_frame
   \<and> avg_temp (assign_statistics no_rounding (new_metrics 25.7743 (-80.1937) 6 23 2025) mixed_frame)
       = Num 72
   \<and> min_temp (assign_statistics no_rounding (new_metrics 25.7743 (-80.1937) 6 23 2025) mixed_frame)
       = Num 64
   \<and> max_temp (assign_statistics no_rounding (new_metrics 25.7743 (-80.1937) 6 23 2025) mixed_frame)
       = Num 91
   \<and> avg_wind (assign_statistics no_rounding (new_metrics 25.7743 (-80.1937) 6 23 2025) mixed_frame)
       = Num 12
   \<and> min_wind (assign_statistics no_rounding (new_metrics 25.7743 (-80.1937) 6 23 2025) mixed_frame)
       = Num 9
   \<and> max_wind (assign_statistics no_rounding (new_metrics 25.7743 (-80.1937) 6 23 2025) mixed_frame)
       = Num 15
   \<and> sum_precip (assign_statistics no_rounding (new_metrics 25.7743 (-80.1937) 6 23 2025) mixed_frame)
       = Num 1
   \<and> min_precip (assign_statistics no_rounding (new_metrics 25.7743 (-80.1937) 6 23 2025) mixed_frame)
       = Num 0
   \<and> max_precip (assign_statistics no_rounding (new_metrics 25.7743 (-80.1937) 6 23 2025) mixed_frame)
       = Num 0.5"
proof -
  let ?s = "assign_statistics no_rounding (new_metrics 25.7743 (-80.1937) 6 23 2025) mixed_frame"
  have f: "five_rows mixed_frame" by (simp add: five_rows_def mixed_frame_def)
  have v: "min_temp ?s = Num 64" "max_temp ?s = Num 91" "min_wind ?s = Num 9"
    "max_wind ?s = Num 15" "min_precip ?s = Num 0" "max_precip ?s = Num 0.5"
    by (simp_all add: assign_statistics_def mixed_frame_def series_min_def series_max_def
        calc_wind_speed_max_def)
  have "avg_temp ?s = Num 72 \<and> avg_wind ?s = Num 12 \<and> sum_precip ?s = Num 1"
    using assign_statistics_spec [OF f, of no_rounding
        "new_metrics 25.7743 (-80.1937) 6 23 2025" "[]" "[]"]
    by (simp add: Let_def mixed_frame_def float_mean_no_rounding float_sum_no_rounding)
  then show ?thesis using f v by simp
qed

lemma sample_dates:
  "datetime 2024 6 23 = Inr \<lparr>dyear = 2024, dmonth = 6, dday = 23\<rparr>"
  "datetime 2023 6 23 = Inr \<lparr>dyear = 2023, dmonth = 6, dday = 23\<rparr>"
  "datetime 2022 6 23 = Inr \<lparr>dyear = 2022, dmonth = 6, dday = 23\<rparr>"
  "datetime 2021 6 23 = Inr \<lparr>dyear = 2021, dmonth = 6, dday = 23\<rparr>"
  "datetime 2020 6 23 = Inr \<lparr>dyear = 2020, dmonth = 6, dday = 23\<rparr>"
  by (simp_all add: datetime_def days_in_month_def)

lemma fetch_year_sample:
  "fetch_year archive_sample lat lon 2025 6 23 1 =
     Inr \<lparr>date = [\<lparr>dyear = 2024, dmonth = 6, dday = 23\<rparr>], temperature_2m_max = [Num 84],
          temperature_2m_min = [Num 60], temperature_2m_mean = [Num 74], precipitation_sum = [Num 0.25],
          wind_speed_10m_max = [Num 12], wind_gusts_10m_max = [Num 30]\<rparr>"
  "fetch_year archive_sample lat lon 2025 6 23 2 =
     Inr \<lparr>date = [\<lparr>dyear = 2023, dmonth = 6, dday = 23\<rparr>], temperature_2m_max = [Num 83],
          temperature_2m_min = [Num 60], temperature_2m_mean = [Num 73], precipitation_sum = [Num 0.25],
          wind_speed_10m_max = [Num 12], wind_gusts_10m_max = [Num 30]\<rparr>"
  "fetch_year archive_sample lat lon 2025 6 23 3 =
     Inr \<lparr>date = [\<lparr>dyear = 2022, dmonth = 6, dday = 23\<rparr>], temperature_2m_max = [Num 82],
          temperature_2m_min = [Num 60], temperature_2m_mean = [Num 72], precipitation_sum = [Num 0.25],
          wind_speed_10m_max = [Num 12], wind_gusts_10m_max = [Num 30]\<rparr>"
  "fetch_year archive_sample lat lon 2025 6 23 4 =
     Inr \<lparr>date = [\<lparr>dyear = 2021, dmonth = 6, dday = 23\<rparr>], temperature_2m_max = [Num 81],
          temperature_2m_min = [Num 60], temperature_2m_mean = [Num 71], precipitation_sum = [Num 0.25],
          wind_speed_10m_max = [Num 12], wind_gusts_10m_max = [Num 30]\<rparr>"
  "fetch_year archive_sample lat lon 2025 6 23 5 =
     Inr \<lparr>date = [\<lparr>dyear = 2020, dmonth = 6, dday = 23\<rparr>], temperature_2m_max = [Num 80],
          temperature_2m_min = [Num 60], temperature_2m_mean = [Num 70], precipitation_sum = [Num 0.25],
          wind_speed_10m_max = [Num 12], wind_gusts_10m_max = [Num 30]\<rparr>"
  by (simp_all add: fetch_year_def sample_dates call_api_def params_def archive_sample_def
      daily_data_of_def)




lemma year_loop_all_fetched:
  assumes "year_loop openmeteo lat lon now m d years acc = Inr df" and "i \<in> set years"
  shows "\<exists>r. fetch_year openmeteo lat lon now m d i = Inr r \<and> has_first_day r"
proof (cases "fetch_year openmeteo lat lon now m d i")
  case (Inl e)
  then show ?thesis
    using year_loop_fetch_fails [OF assms(2) Inl, of acc] assms(1) by simp
next
  case (Inr r)
  show ?thesis
  proof (cases "has_first_day r")
    case True
    then show ?thesis using Inr by simp
  next
    case False
    then show ?thesis
      using year_loop_no_first_day [OF assms(2) Inr False, of acc] assms(1) by simp
  qed
qed

lemma new_metrics_fields:
  "latitude (new_metrics lat lon m d y) = lat" "longitude (new_metrics lat lon m d y) = lon"
  "month (new_metrics lat lon m d y) = m" "day (new_metrics lat lon m d y) = d"
  by (simp_all add: new_metrics_def)

lemma WeatherMetrics_eq:
  "WeatherMetrics rnd openmeteo now lat lon m d y =
     (case get_data_for_date openmeteo lat lon now m d of
        Inl e \<Rightarrow> Inl e
      | Inr df \<Rightarrow> Inr (assign_statistics rnd (new_metrics lat lon m d y) df))"
  by (simp add: WeatherMetrics_def fill_out_class_def new_metrics_fields)

lemma fetch_year_nan:
  "fetch_year archive_nan_year lat lon 2025 6 23 1 =
     Inr \<lparr>date = [\<lparr>dyear = 2024, dmonth = 6, dday = 23\<rparr>], temperature_2m_max = [NaN],
          temperature_2m_min = [NaN], temperature_2m_mean = [NaN], precipitation_sum = [NaN],
          wind_speed_10m_max = [NaN], wind_gusts_10m_max = [NaN]\<rparr>"
  "fetch_year archive_nan_year lat lon 2025 6 23 2 = fetch_year archive_sample lat lon 2025 6 23 2"
  "fetch_year archive_nan_year lat lon 2025 6 23 3 = fetch_year archive_sample lat lon 2025 6 23 3"
  "fetch_year archive_nan_year lat lon 2025 6 23 4 = fetch_year archive_sample lat lon 2025 6 23 4"
  "fetch_year archive_nan_year lat lon 2025 6 23 5 = fetch_year archive_sample lat lon 2025 6 23 5"
  by (simp_all add: fetch_year_def sample_dates call_api_def params_def archive_nan_year_def
      daily_data_of_def)

lemma get_data_for_date_nan:
  "get_data_for_date archive_nan_year lat lon 2025 6 23 = Inr nan_frame"
  by (simp add: get_data_for_date_def fetch_year_nan fetch_year_sample append_first_def
      chosen_date_data_init_def nan_frame_def)

lemma statistics_nan_frame:
  "assign_statistics no_rounding (new_metrics lat lon 6 23 2025) nan_frame =
     \<lparr>latitude = lat, longitude = lon, month = 6, day = 23, year = 2025,
      avg_temp = Num 71.5, min_temp = Num 60, max_temp = Num 83,
      avg_wind = Num 12, min_wind = Num 12, max_wind = Num 12,
      sum_precip = Num 1, min_precip = Num 0.25, max_precip = Num 0.25\<rparr>"
  by (simp add: assign_statistics_def new_metrics_def nan_frame_def calc_avg_temp_def
      calc_wind_speed_max_def calc_total_precip_def series_mean_def series_sum_def
      series_min_def series_max_def float_mean_no_rounding float_sum_no_rounding)

text \<open>
  C6, as stated, fails: when the archive answers the request for 2024 with a day whose
  values are missing, no fetch fails, and a summary whose statistics rest on the four
  values of the other years is produced, stored in the record store and put into the
  session state.
\<close>

theorem missing_year_counterexample:
  "fetch_year archive_nan_year 25.7743 (-80.1937) 2025 6 23 1 =
     Inr \<lparr>date = [\<lparr>dyear = 2024, dmonth = 6, dday = 23\<rparr>], temperature_2m_max = [NaN],
          temperature_2m_min = [NaN], temperature_2m_mean = [NaN], precipitation_sum = [NaN],
          wind_speed_10m_max = [NaN], wind_gusts_10m_max = [NaN]\<rparr>
   \<and> run_weather_analysis no_rounding archive_nan_year None 2025 25.7743 (-80.1937)
        \<lparr>dyear = 2025, dmonth = 6, dday = 23\<rparr> initial_state
     = \<lparr>table =
          [\<lparr>latitude = 25.7743, longitude = -80.1937, month = 6, day = 23, year = 2025,
            avg_temp = Num 71.5, min_temp = Num 60, max_temp = Num 83,
            avg_wind = Num 12, min_wind = Num 12, max_wind = Num 12,
            sum_precip = Num 1, min_precip = Num 0.25, max_precip = Num 0.25\<rparr>],
        session_metrics = Some
          \<lparr>latitude = 25.7743, longitude = -80.1937, month = 6, day = 23, year = 2025,
            avg_temp = Num 71.5, min_temp = Num 60, max_temp = Num 83,
            avg_wind = Num 12, min_wind = Num 12, max_wind = Num 12,
            sum_precip = Num 1, min_precip = Num 0.25, max_precip = Num 0.25\<rparr>,
        session_weather_data = Some
          \<lparr>latitude = 25.7743, longitude = -80.1937, month = 6, day = 23, year = 2025,
            avg_temp = Num 71.5, min_temp = Num 60, max_temp = Num 83,
            avg_wind = Num 12, min_wind = Num 12, max_wind = Num 12,
            sum_precip = Num 1, min_precip = Num 0.25, max_precip = Num 0.25\<rparr>,
        analysis_complete = True, errors_shown = []\<rparr>"
  by (simp add: fetch_year_nan run_weather_analysis_def WeatherMetrics_eq
      get_data_for_date_nan statistics_nan_frame insert_data_def session_commit_def
      session_add_def new_session_def session_close_def initial_state_def)

text \<open>
  C6, amended: if one of the five per-year fetches fails, the aggregation fails, the
  constructor of \<open>WeatherMetrics\<close> fails with the same exception, and the analysis run
  leaves the record store and the session state as they were, showing only the error; and
  every summary the constructor does return is the statistics step applied to a frame of
  exactly five rows, all five fetches having returned a day. Rows, not values: whenever
  each of the five fetches returns a day, whatever its values, missing ones included, a
  summary is returned.
\<close>

theorem fetch_failure_aborts_analysis:
  "(i \<in> {1, 2, 3, 4, 5} \<and> fetch_year openmeteo lat lon now (dmonth td) (dday td) i = Inl e \<longrightarrow>
      (\<exists>e'. get_data_for_date openmeteo lat lon now (dmonth td) (dday td) = Inl e'
        \<and> WeatherMetrics rnd openmeteo now lat lon (dmonth td) (dday td) (dyear td) = Inl e'
        \<and> run_weather_analysis rnd openmeteo failure now lat lon td st
            = st\<lparr>errors_shown := errors_shown st @ [e']\<rparr>))
   \<and> (WeatherMetrics rnd openmeteo now lat lon m d y = Inr s \<longrightarrow>
      (\<exists>df. get_data_for_date openmeteo lat lon now m d = Inr df \<and> five_rows df
        \<and> s = assign_statistics rnd (new_metrics lat lon m d y) df
        \<and> (\<forall>j \<in> {1, 2, 3, 4, 5}.
              \<exists>r. fetch_year openmeteo lat lon now m d j = Inr r \<and> has_first_day r)))
   \<and> ((\<forall>j \<in> {1, 2, 3, 4, 5}.
          \<exists>r. fetch_year openmeteo lat lon now m d j = Inr r \<and> has_first_day r) \<longrightarrow>
      (\<exists>s'. WeatherMetrics rnd openmeteo now lat lon m d y = Inr s'))"
proof (intro conjI impI)
  assume a: "i \<in> {1, 2, 3, 4, 5} \<and> fetch_year openmeteo lat lon now (dmonth td) (dday td) i = Inl e"
  then have "i \<in> set [1, 2, 3, 4, 5]" by simp
  from year_loop_fetch_fails [OF this, of openmeteo lat lon now "dmonth td" "dday td" e
      chosen_date_data_init] a
  obtain e' where e': "get_data_for_date openmeteo lat lon now (dmonth td) (dday td) = Inl e'"
    unfolding get_data_for_date_def by blast
  then show "\<exists>e'. get_data_for_date openmeteo lat lon now (dmonth td) (dday td) = Inl e'
        \<and> WeatherMetrics rnd openmeteo now lat lon (dmonth td) (dday td) (dyear td) = Inl e'
        \<and> run_weather_analysis rnd openmeteo failure now lat lon td st
            = st\<lparr>errors_shown := errors_shown st @ [e']\<rparr>"
    by (simp add: WeatherMetrics_eq run_weather_analysis_def)
next
  assume a: "WeatherMetrics rnd openmeteo now lat lon m d y = Inr s"
  then obtain df where df: "get_data_for_date openmeteo lat lon now m d = Inr df"
    and s: "s = assign_statistics rnd (new_metrics lat lon m d y) df"
    by (auto simp add: WeatherMetrics_eq split: sum.splits)
  have five: "five_rows df" using df by (rule get_data_for_date_five_rows)
  have "\<forall>j \<in> set [1, 2, 3, 4, 5].
      \<exists>r. fetch_year openmeteo lat lon now m d j = Inr r \<and> has_first_day r"
    using df year_loop_all_fetched unfolding get_data_for_date_def by blast
  then show "\<exists>df. get_data_for_date openmeteo lat lon now m d = Inr df \<and> five_rows df
        \<and> s = assign_statistics rnd (new_metrics lat lon m d y) df
        \<and> (\<forall>j \<in> {1, 2, 3, 4, 5}.
              \<exists>r. fetch_year openmeteo lat lon now m d j = Inr r \<and> has_first_day r)"
    using df s five by simp
next
  assume a: "\<forall>j \<in> {1, 2, 3, 4, 5}.
      \<exists>r. fetch_year openmeteo lat lon now m d j = Inr r \<and> has_first_day r"
  from a obtain r1 where r1: "fetch_year openmeteo lat lon now m d 1 = Inr r1" "has_first_day r1"
    by auto
  from a obtain r2 where r2: "fetch_year openmeteo lat lon now m d 2 = Inr r2" "has_first_day r2"
    by auto
  from a obtain r3 where r3: "fetch_year openmeteo lat lon now m d 3 = Inr r3" "has_first_day r3"
    by auto
  from a obtain r4 where r4: "fetch_year openmeteo lat lon now m d 4 = Inr r4" "has_first_day r4"
    by auto
  from a obtain r5 where r5: "fetch_year openmeteo lat lon now m d 5 = Inr r5" "has_first_day r5"
    by auto
  have "\<exists>df. get_data_for_date openmeteo lat lon now m d = Inr df"
    using r1 r2 r3 r4 r5 by (simp add: get_data_for_date_def append_first_ok)
  then show "\<exists>s'. WeatherMetrics rnd openmeteo now lat lon m d y = Inr s'"
    by (auto simp add: WeatherMetrics_eq)
qed

lemma fetch_year_gap:
  "fetch_year archive_gap lat lon 2025 6 23 1 = fetch_year archive_sample lat lon 2025 6 23 1"
  "fetch_year archive_gap lat lon 2025 6 23 2 = fetch_year archive_sample lat lon 2025 6 23 2"
  "fetch_year archive_gap lat lon 2025 6 23 3 = Inl (UpstreamError ''timeout'')"
  by (simp_all add: fetch_year_def sample_dates call_api_def params_def archive_gap_def)

lemma get_data_for_date_gap:
  "get_data_for_date archive_gap lat lon 2025 6 23 = Inl (UpstreamError ''timeout'')"
  by (simp add: get_data_for_date_def fetch_year_gap fetch_year_sample append_first_def
      chosen_date_data_init_def)

lemma get_data_for_date_sample_any:
  "get_data_for_date archive_sample lat lon 2025 6 23 = Inr sample_frame"
  by (simp add: get_data_for_date_def fetch_year_sample append_first_def
      chosen_date_data_init_def sample_frame_def)

theorem fetch_failure_aborts_analysis_witness:
  "fetch_year archive_gap 25.7743 (-80.1937) 2025 6 23 3 = Inl (UpstreamError ''timeout'')
   \<and> run_weather_analysis no_rounding archive_gap None 2025 25.7743 (-80.1937)
        \<lparr>dyear = 2025, dmonth = 6, dday = 23\<rparr> initial_state
       = initial_state\<lparr>errors_shown := [UpstreamError ''timeout'']\<rparr>
   \<and> WeatherMetrics no_rounding archive_sample 2025 25.7743 (-80.1937) 6 23 2025
       = Inr (assign_statistics no_rounding (new_metrics 25.7743 (-80.1937) 6 23 2025)
                sample_frame)
   \<and> five_rows sample_frame
   \<and> WeatherMetrics no_rounding archive_nan_year 2025 25.7743 (-80.1937) 6 23 2025
       = Inr (assign_statistics no_rounding (new_metrics 25.7743 (-80.1937) 6 23 2025)
                nan_frame)"
proof -
  have 1: "fetch_year archive_gap 25.7743 (-80.1937) 2025 6 23 3 = Inl (UpstreamError ''timeout'')"
    by (rule fetch_year_gap)
  have 3: "WeatherMetrics no_rounding archive_nan_year 2025 25.7743 (-80.1937) 6 23 2025
       = Inr (assign_statistics no_rounding (new_metrics 25.7743 (-80.1937) 6 23 2025)
                nan_frame)"
    by (simp add: WeatherMetrics_eq get_data_for_date_nan)
  have 2: "WeatherMetrics no_rounding archive_sample 2025 25.7743 (-80.1937) 6 23 2025
       = Inr (assign_statistics no_rounding (new_metrics 25.7743 (-80.1937) 6 23 2025)
                sample_frame)"
    by (simp add: WeatherMetrics_eq get_data_for_date_sample_any)
  show ?thesis
    using 1 2 3
      fetch_failure_aborts_analysis [of 3 archive_gap "25.7743" "-80.1937" 2025
        "\<lparr>dyear = 2025, dmonth = 6, dday = 23\<rparr>" "UpstreamError ''timeout''" no_rounding
        None initial_state 6 23 2025
        "assign_statistics no_rounding (new_metrics 25.7743 (-80.1937) 6 23 2025) sample_frame"]
      fetch_failure_aborts_analysis [of 3 archive_sample "25.7743" "-80.1937" 2025
        "\<lparr>dyear = 2025, dmonth = 6, dday = 23\<rparr>" "UpstreamError ''timeout''" no_rounding
        None initial_state 6 23 2025
        "assign_statistics no_rounding (new_metrics 25.7743 (-80.1937) 6 23 2025) sample_frame"]
    by (auto simp add: get_data_for_date_gap get_data_for_date_sample_any initial_state_def)
qed








text \<open>
  For the target date 29 February the series is never assembled: one of the two years
  before the current one is not a leap year, and its date cannot be built.
\<close>

lemma datetime_feb29: "\<not> isleap y \<Longrightarrow> datetime y 2 29 = Inl ValueError"
  by (simp add: datetime_def days_in_month_def)

lemma feb29_aborts: "\<exists>e. get_data_for_date openmeteo lat lon now 2 29 = Inl e"
proof -
  have "\<not> isleap (now - 1) \<or> \<not> isleap (now - 2)"
    unfolding isleap_def by presburger
  then obtain i where i: "i \<in> set [1, 2, 3, 4, 5]" "\<not> isleap (now - i)" by auto
  then have "fetch_year openmeteo lat lon now 2 29 i = Inl ValueError"
    by (simp add: fetch_year_def datetime_feb29)
  from year_loop_fetch_fails [OF i(1) this] show ?thesis
    unfolding get_data_for_date_def by blast
qed

end
